theory Spec2Isabelle
  imports Complex_Main "HOL-Library.AList"
begin

section \<open>Retail analytics dashboard: the computational core\<close>

text \<open>
  The pages of the application (\<^verbatim>\<open>main.py\<close>, \<^verbatim>\<open>customer.py\<close>, \<^verbatim>\<open>clv.py\<close>,
  \<^verbatim>\<open>marketbasket.py\<close>, \<^verbatim>\<open>sentiment.py\<close>) are embedded as functions on explicit state.
  Conventions used throughout:
  \<^item> a float64 value is an exact \<open>real\<close>; a missing value (NaN, NaT, None) is \<open>None\<close>;
  \<^item> a widget is a parameter of the function that reads it (the text typed, the option
    selected, whether the button was pressed);
  \<^item> a call into a library (TextBlob, mlxtend, XGBoost, the date parser of pandas) is a
    parameter of the function that makes the call;
  \<^item> a file is a field of the state, \<open>None\<close> while the file does not exist.
\<close>

section \<open>Sentiment scorer (\<^verbatim>\<open>sentiment.py\<close>)\<close>

datatype sentiment = Positive | Negative | Neutral

text \<open>
  \<^verbatim>\<open>get_sentiment(text)\<close>, lines 55-64. The cell is \<open>None\<close> when \<^verbatim>\<open>pd.isna(text)\<close>, and
  otherwise carries \<^verbatim>\<open>str(text)\<close>. The first argument stands for
  \<^verbatim>\<open>TextBlob(s).sentiment.polarity\<close>.
\<close>

definition get_sentiment :: "(string \<Rightarrow> real) \<Rightarrow> string option \<Rightarrow> sentiment" where
  "get_sentiment polarity text =
     (case text of
        None \<Rightarrow> Neutral
      | Some s \<Rightarrow>
          (if polarity s > 0.1 then Positive
           else if polarity s < - 0.1 then Negative
           else Neutral))"

section \<open>Session and credential store (\<^verbatim>\<open>main.py\<close>)\<close>

text \<open>
  \<^verbatim>\<open>str.strip()\<close> removes leading and trailing whitespace. A \<open>char\<close> is read as a code
  point below 256; these are the ones \<^verbatim>\<open>str.isspace\<close> accepts.
\<close>

definition isspace :: "char \<Rightarrow> bool" where
  "isspace c = (of_char c \<in> set [9, 10, 11, 12, 13, 28, 29, 30, 31, 32, 133, 160 :: nat])"

definition strip :: "string \<Rightarrow> string" where
  "strip s = rev (dropWhile isspace (rev (dropWhile isspace s)))"

text \<open>
  The credential store is the JSON object of \<^verbatim>\<open>users.json\<close>: a dictionary in insertion
  order, username to plaintext password. The session flags of \<^verbatim>\<open>st.session_state\<close> and
  the file make up the state.
\<close>

type_synonym users = "(string \<times> string) list"

record state =
  user_file :: "users option"
  authenticated :: bool
  username :: string
  selected_app :: "string option"

datatype notice = Warning string | Error string | Success string | Info string | Rerun | Quiet

definition load_users :: "state \<Rightarrow> users" where
  "load_users st = (case user_file st of Some us \<Rightarrow> us | None \<Rightarrow> [])"

definition save_users :: "users \<Rightarrow> state \<Rightarrow> state" where
  "save_users us st = st\<lparr>user_file := Some us\<rparr>"

text \<open>The three buttons of the authentication sidebar, lines 66-98.\<close>

definition login_button :: "string \<Rightarrow> string \<Rightarrow> state \<Rightarrow> notice \<times> state" where
  "login_button name password st =
     (let users = load_users st in
      if strip name = [] \<or> strip password = []
      then (Warning ''Please enter both username and password.'', st)
      else if (case map_of users name of Some p \<Rightarrow> p = password | None \<Rightarrow> False)
      then (Rerun, st\<lparr>authenticated := True, username := name\<rparr>)
      else (Error ''Invalid username or password.'', st))"

definition create_account_button :: "string \<Rightarrow> string \<Rightarrow> state \<Rightarrow> notice \<times> state" where
  "create_account_button name password st =
     (let users = load_users st in
      if strip name = [] \<or> strip password = []
      then (Warning ''Username and password cannot be empty.'', st)
      else if map_of users name \<noteq> None
      then (Error ''Username already exists.'', st)
      else (Success ''Account created! Please login.'',
            save_users (AList.update name password users) st))"

definition reset_password_button :: "string \<Rightarrow> string \<Rightarrow> state \<Rightarrow> notice \<times> state" where
  "reset_password_button name new_password st =
     (let users = load_users st in
      if strip name = [] \<or> strip new_password = []
      then (Warning ''Please enter both username and new password.'', st)
      else if map_of users name \<noteq> None
      then (Success ''Password reset successfully.'',
            save_users (AList.update name new_password users) st)
      else (Error ''Username not found.'', st))"

datatype auth_mode = Login | Sign_Up | Reset_Password

text \<open>
  One render of the authentication sidebar (lines 48-98): \<open>pressed\<close> tells whether the
  button of the chosen mode was clicked. The rerun that clears the two inputs when the
  mode changes is left out.
\<close>

definition auth_ui ::
  "auth_mode \<Rightarrow> string \<Rightarrow> string \<Rightarrow> string \<Rightarrow> bool \<Rightarrow> state \<Rightarrow> notice \<times> state" where
  "auth_ui mode name password new_password pressed st =
     (if authenticated st \<or> \<not> pressed then (Quiet, st)
      else case mode of
             Login \<Rightarrow> login_button name password st
           | Sign_Up \<Rightarrow> create_account_button name password st
           | Reset_Password \<Rightarrow> reset_password_button name new_password st)"

definition failed :: "notice \<Rightarrow> bool" where
  "failed n = (case n of Warning _ \<Rightarrow> True | Error _ \<Rightarrow> True | _ \<Rightarrow> False)"

text \<open>
  The admin panel, lines 131-146. \<open>choice\<close> is the position selected in the select box
  over \<^verbatim>\<open>deletable_users\<close>; the widget only returns one of its options.
\<close>

definition deletable_users :: "users \<Rightarrow> string list" where
  "deletable_users users = [u \<leftarrow> map fst users. u \<noteq> ''admin'']"

definition admin_panel :: "nat \<Rightarrow> bool \<Rightarrow> state \<Rightarrow> notice \<times> state" where
  "admin_panel choice pressed st =
     (if \<not> authenticated st \<or> username st \<noteq> ''admin'' then (Quiet, st)
      else
        let users = load_users st; deletable = deletable_users users in
        if deletable = [] then (Info ''No users available to delete.'', st)
        else if choice < length deletable \<and> pressed
        then (let delete_user = deletable ! choice in
              (Success (''User '' @ [CHR 0x27] @ delete_user @ [CHR 0x27] @ '' deleted successfully.''),
               save_users (AList.delete delete_user users) st))
        else (Quiet, st))"

text \<open>A sequence of renders of the admin panel, each with its selection and click.\<close>

definition admin_session :: "(nat \<times> bool) list \<Rightarrow> state \<Rightarrow> state" where
  "admin_session clicks st = fold (\<lambda>(choice, pressed) s. snd (admin_panel choice pressed s)) clicks st"

section \<open>Market basket (\<^verbatim>\<open>marketbasket.py\<close>)\<close>

text \<open>
  A transaction row: the invoice cell and the item cell of the two columns found by
  \<^verbatim>\<open>find_column\<close>; \<open>None\<close> is an empty cell.
\<close>

record transaction =
  invoice :: "string option"
  item :: "string option"

text \<open>
  \<^verbatim>\<open>Series.value_counts()\<close> counts the non-null values. Its order (by falling count)
  plays no part below.
\<close>

definition value_counts :: "'a option list \<Rightarrow> ('a \<times> nat) list" where
  "value_counts col = map (\<lambda>x. (x, count_list col (Some x))) (remdups [x. Some x \<leftarrow> col])"

text \<open>Lines 66-68: the rows whose item is among the items counted more than 50 times.\<close>

definition common_items :: "'a option list \<Rightarrow> 'a list" where
  "common_items col = [x. (x, n) \<leftarrow> value_counts col, n > 50]"

definition filter_common :: "transaction list \<Rightarrow> transaction list" where
  "filter_common df =
     (let common = common_items (map item df)
      in filter (\<lambda>r. case item r of None \<Rightarrow> False | Some i \<Rightarrow> i \<in> set common) df)"

text \<open>
  A row of the rule table of mlxtend: the item sets are frozensets, the metrics floats;
  the other columns of the table are the record's extension.
\<close>

record rule =
  antecedents :: "string set"
  consequents :: "string set"
  support :: real
  confidence :: real
  lift :: real


section \<open>Customer tables (\<^verbatim>\<open>customer.py\<close>, \<^verbatim>\<open>clv.py\<close>)\<close>

text \<open>
  A data frame is a list of rows under three lists of column names, by kind: float64
  columns, text (object) columns and datetime64 columns. A row gives the cell of each
  column; a timestamp is a number of nanoseconds since the epoch. Integer columns are
  float64 columns holding whole numbers.
\<close>

record row =
  num :: "string \<Rightarrow> real option"
  str :: "string \<Rightarrow> string option"
  date :: "string \<Rightarrow> int option"

record frame =
  num_cols :: "string list"
  str_cols :: "string list"
  date_cols :: "string list"
  rows :: "row list"

datatype cell = Number real | Text string | Time int

datatype error = KeyError string | TypeError string | ParserError string | Stop

definition columns :: "frame \<Rightarrow> string list" where
  "columns df = num_cols df @ str_cols df @ date_cols df"

definition cell :: "frame \<Rightarrow> string \<Rightarrow> row \<Rightarrow> cell option" where
  "cell df c r =
     (if c \<in> set (num_cols df) then map_option Number (num r c)
      else if c \<in> set (str_cols df) then map_option Text (str r c)
      else map_option Time (date r c))"

text \<open>\<^verbatim>\<open>df[c] = ...\<close> with a float64 (or datetime64) result, computed row by row.\<close>

definition assign_num :: "string \<Rightarrow> (row \<Rightarrow> real option) \<Rightarrow> row \<Rightarrow> row" where
  "assign_num c f r = r\<lparr>num := (num r)(c := f r)\<rparr>"

definition set_num :: "string \<Rightarrow> (row \<Rightarrow> real option) \<Rightarrow> frame \<Rightarrow> frame" where
  "set_num c f df =
     df\<lparr>num_cols := (if c \<in> set (num_cols df) then num_cols df else num_cols df @ [c]),
        str_cols := removeAll c (str_cols df),
        date_cols := removeAll c (date_cols df),
        rows := map (assign_num c f) (rows df)\<rparr>"

definition assign_date :: "string \<Rightarrow> (row \<Rightarrow> int option) \<Rightarrow> row \<Rightarrow> row" where
  "assign_date c f r = r\<lparr>date := (date r)(c := f r)\<rparr>"

definition set_date :: "string \<Rightarrow> (row \<Rightarrow> int option) \<Rightarrow> frame \<Rightarrow> frame" where
  "set_date c f df =
     df\<lparr>num_cols := removeAll c (num_cols df),
        str_cols := removeAll c (str_cols df),
        date_cols := (if c \<in> set (date_cols df) then date_cols df else date_cols df @ [c]),
        rows := map (assign_date c f) (rows df)\<rparr>"

text \<open>
  Reading float64 columns for arithmetic: a missing column is a KeyError, a column of
  another kind a TypeError.
\<close>

definition check_num :: "frame \<Rightarrow> string list \<Rightarrow> error option" where
  "check_num df cs =
     (case filter (\<lambda>c. c \<notin> set (columns df)) cs of
        c # _ \<Rightarrow> Some (KeyError c)
      | [] \<Rightarrow>
          (case filter (\<lambda>c. c \<notin> set (num_cols df)) cs of
             c # _ \<Rightarrow> Some (TypeError c)
           | [] \<Rightarrow> None))"

text \<open>
  \<^verbatim>\<open>df[c] = pd.to_datetime(df[c], errors=...)\<close>. \<open>parse\<close> is the parser of pandas on one
  cell, \<open>None\<close> where it rejects the cell. With \<^verbatim>\<open>errors='raise'\<close> (the default) one
  rejected cell raises; with \<^verbatim>\<open>errors='coerce'\<close> it becomes NaT. A missing cell is NaT.
\<close>

definition parse_cell :: "(cell \<Rightarrow> int option) \<Rightarrow> frame \<Rightarrow> string \<Rightarrow> row \<Rightarrow> int option" where
  "parse_cell parse df c r = (case cell df c r of None \<Rightarrow> None | Some v \<Rightarrow> parse v)"

definition to_datetime :: "(cell \<Rightarrow> int option) \<Rightarrow> bool \<Rightarrow> string \<Rightarrow> frame \<Rightarrow> error + frame" where
  "to_datetime parse coerce c df =
     (if c \<notin> set (columns df) then Inl (KeyError c)
      else if c \<in> set (date_cols df) then Inr df
      else if \<not> coerce \<and> list_ex (\<lambda>r. cell df c r \<noteq> None \<and> parse_cell parse df c r = None) (rows df)
      then Inl (ParserError c)
      else Inr (set_date c (parse_cell parse df c) df))"

text \<open>\<^verbatim>\<open>df.dropna()\<close>: the rows with no null in any column.\<close>

definition isna_any :: "frame \<Rightarrow> row \<Rightarrow> bool" where
  "isna_any df r =
     (list_ex (\<lambda>c. num r c = None) (num_cols df)
      \<or> list_ex (\<lambda>c. str r c = None) (str_cols df)
      \<or> list_ex (\<lambda>c. date r c = None) (date_cols df))"

definition dropna :: "frame \<Rightarrow> frame" where
  "dropna df = df\<lparr>rows := filter (\<lambda>r. \<not> isna_any df r) (rows df)\<rparr>"

text \<open>\<^verbatim>\<open>df[cols].sum(axis=1)\<close>: nulls are skipped. \<^verbatim>\<open>Series.round(2)\<close> rounds half to even.\<close>

definition total :: "string list \<Rightarrow> row \<Rightarrow> real" where
  "total cols r = (\<Sum>c\<leftarrow>cols. case num r c of None \<Rightarrow> 0 | Some x \<Rightarrow> x)"

definition sum_axis1 :: "string list \<Rightarrow> row \<Rightarrow> real option" where
  "sum_axis1 cols r = Some (total cols r)"

definition mul :: "real option \<Rightarrow> real option \<Rightarrow> real option" where
  "mul a b = (case a of None \<Rightarrow> None | Some x \<Rightarrow> map_option (\<lambda>y. x * y) b)"

definition rint :: "real \<Rightarrow> int" where
  "rint x =
     (let f = \<lfloor>x\<rfloor>; d = x - of_int f
      in if d < 1 / 2 then f else if 1 / 2 < d then f + 1 else if even f then f else f + 1)"

definition round2 :: "real \<Rightarrow> real" where
  "round2 x = of_int (rint (x * 100)) / 100"

definition day :: int where
  "day = 86400 * 1000000000"

definition spend_cols :: "string list" where
  "spend_cols = [''MntWines'', ''MntFruits'', ''MntMeatProducts'', ''MntFishProducts'',
                 ''MntSweetProducts'', ''MntGoldProds'']"

definition purchase_cols :: "string list" where
  "purchase_cols = [''NumDealsPurchases'', ''NumWebPurchases'', ''NumCatalogPurchases'',
                    ''NumStorePurchases'']"

text \<open>The column expressions of the feature engineering, shared by the two pages.\<close>

definition age_of :: "int \<Rightarrow> row \<Rightarrow> real option" where
  "age_of current_year r = map_option (\<lambda>b. of_int current_year - b) (num r ''Year_Birth'')"

definition tenure_days :: "int \<Rightarrow> row \<Rightarrow> real option" where
  "tenure_days now r = map_option (\<lambda>t. of_int ((now - t) div day)) (date r ''Dt_Customer'')"

definition tenure_years :: "row \<Rightarrow> real option" where
  "tenure_years r = map_option (\<lambda>d. d / 365) (num r ''Customer_Tenure'')"

definition profit_margin :: "row \<Rightarrow> real option" where
  "profit_margin r = map_option (\<lambda>s. s * 0.3) (num r ''Total_Spending'')"

definition clv_product :: "row \<Rightarrow> real option" where
  "clv_product r =
     mul (mul (num r ''Profit_Margin'') (num r ''Purchase_Frequency'')) (num r ''Tenure_Years'')"

text \<open>
  What lines 55-67 of \<^verbatim>\<open>customer.py\<close> do to one row, once the enrollment date is a
  timestamp: the eight column assignments in the order of the source.
\<close>

definition derive_row :: "int \<Rightarrow> int \<Rightarrow> row \<Rightarrow> row" where
  "derive_row current_year now r =
     (let r2 = assign_num ''Age'' (age_of current_year) r;
          r3 = assign_num ''Customer_Tenure'' (tenure_days now) r2;
          r4 = assign_num ''Tenure_Years'' tenure_years r3;
          r5 = assign_num ''Total_Spending'' (sum_axis1 spend_cols) r4;
          r6 = assign_num ''Purchase_Frequency'' (sum_axis1 purchase_cols) r5;
          r7 = assign_num ''Profit_Margin'' profit_margin r6;
          r8 = assign_num ''CLV'' clv_product r7
      in assign_num ''CLV'' (\<lambda>r. map_option round2 (num r ''CLV'')) r8)"

definition derived_cols :: "string list" where
  "derived_cols = [''Age'', ''Customer_Tenure'', ''Tenure_Years'', ''Total_Spending'',
                   ''Purchase_Frequency'', ''Profit_Margin'', ''CLV'']"

text \<open>
  \<^verbatim>\<open>run_clv\<close>, lines 53-68 of \<^verbatim>\<open>customer.py\<close>: the table the prediction page works on.
  \<open>current_year\<close> and \<open>now\<close> are the two readings of the clock (lines 54 and 56). An
  exception ends the page.
\<close>

definition run_clv_features :: "(cell \<Rightarrow> int option) \<Rightarrow> int \<Rightarrow> int \<Rightarrow> frame \<Rightarrow> error + frame" where
  "run_clv_features parse current_year now raw_df =
     (case to_datetime parse False ''Dt_Customer'' raw_df of
        Inl e \<Rightarrow> Inl e
      | Inr df1 \<Rightarrow>
     (case check_num df1 [''Year_Birth''] of
        Some e \<Rightarrow> Inl e
      | None \<Rightarrow>
     (let df2 = set_num ''Age'' (age_of current_year) df1;
          df3 = set_num ''Customer_Tenure'' (tenure_days now) df2;
          df4 = set_num ''Tenure_Years'' tenure_years df3
      in
     (case check_num df4 spend_cols of
        Some e \<Rightarrow> Inl e
      | None \<Rightarrow>
      let df5 = set_num ''Total_Spending'' (sum_axis1 spend_cols) df4 in
     (case check_num df5 purchase_cols of
        Some e \<Rightarrow> Inl e
      | None \<Rightarrow>
      let df6 = set_num ''Purchase_Frequency'' (sum_axis1 purchase_cols) df5;
          df7 = set_num ''Profit_Margin'' profit_margin df6;
          df8 = set_num ''CLV'' clv_product df7;
          df9 = set_num ''CLV'' (\<lambda>r. map_option round2 (num r ''CLV'')) df8
      in Inr (dropna df9))))))"

text \<open>
  \<^verbatim>\<open>train_model(df)\<close>, lines 70-86 of \<^verbatim>\<open>customer.py\<close>. \<open>fit\<close> stands for building an
  \<^verbatim>\<open>XGBRegressor\<close> with the given hyperparameters and fitting it to \<open>X\<close> and \<open>y\<close>; it may
  raise. The two pickle files are the fields of the disk.
\<close>

definition features :: "string list" where
  "features = [''Age'', ''Income'', ''Kidhome'', ''Teenhome'', ''Recency'', ''MntGoldProds'',
               ''NumDealsPurchases'', ''AcceptedCmp1'', ''AcceptedCmp5'', ''Response'',
               ''NumCatalogPurchases'', ''Customer_Tenure'', ''Tenure_Years'',
               ''Total_Spending'', ''Purchase_Frequency'', ''Profit_Margin'']"

record hyperparameters =
  n_estimators :: nat
  max_depth :: nat
  learning_rate :: real
  random_state :: nat

record 'm artifacts =
  xgb_model_pkl :: "'m option"
  features_pkl :: "string list option"

definition train_model ::
  "(hyperparameters \<Rightarrow> real option list list \<Rightarrow> real option list \<Rightarrow> error + 'm) \<Rightarrow> frame \<Rightarrow> 'm artifacts
     \<Rightarrow> error + ('m \<times> string list) \<times> 'm artifacts" where
  "train_model fit df disk =
     (case check_num df features of
        Some e \<Rightarrow> Inl e
      | None \<Rightarrow>
     (case check_num df [''CLV''] of
        Some e \<Rightarrow> Inl e
      | None \<Rightarrow>
      let X = map (\<lambda>r. map (num r) features) (rows df);
          y = map (\<lambda>r. num r ''CLV'') (rows df)
      in
     (case fit \<lparr>n_estimators = 100, max_depth = 5, learning_rate = 0.1, random_state = 42\<rparr> X y of
        Inl e \<Rightarrow> Inl e
      | Inr model \<Rightarrow>
          Inr ((model, features),
               disk\<lparr>xgb_model_pkl := Some model, features_pkl := Some features\<rparr>))))"

text \<open>
  Lines 131-141: \<open>retrain\<close> tells whether the Retrain Model button was pressed.
\<close>

definition load_or_train ::
  "(hyperparameters \<Rightarrow> real option list list \<Rightarrow> real option list \<Rightarrow> error + 'm) \<Rightarrow> bool \<Rightarrow> frame
     \<Rightarrow> 'm artifacts \<Rightarrow> error + ('m \<times> string list) \<times> 'm artifacts" where
  "load_or_train fit retrain df disk =
     (if retrain then train_model fit df disk
      else if xgb_model_pkl disk = None \<or> features_pkl disk = None then train_model fit df disk
      else case (xgb_model_pkl disk, features_pkl disk) of
             (Some model, Some feats) \<Rightarrow> Inr ((model, feats), disk)
           | _ \<Rightarrow> train_model fit df disk)"

text \<open>
  \<^verbatim>\<open>user_input(df)\<close>, lines 88-128: the twelve sidebar widgets are the fields of the
  form; the result is the one-row frame \<^verbatim>\<open>pd.DataFrame([data])\<close>. \<open>widget_ranges\<close> holds the
  lower ends of the sliders and the bounds that do not depend on the data (the upper ends
  of five sliders are maxima of the table).
\<close>

record form =
  Age :: int
  Income :: int
  Kidhome :: int
  Teenhome :: int
  Recency :: int
  MntGoldProds :: int
  NumDealsPurchases :: int
  AcceptedCmp1 :: int
  AcceptedCmp5 :: int
  Response :: int
  NumCatalogPurchases :: int
  Customer_Tenure :: int

definition widget_ranges :: "form \<Rightarrow> bool" where
  "widget_ranges f =
     (18 \<le> Age f \<and> Age f \<le> 100 \<and> 0 \<le> Income f
      \<and> Kidhome f \<in> set [0, 1, 2, 3] \<and> Teenhome f \<in> set [0, 1, 2, 3]
      \<and> 0 \<le> Recency f \<and> Recency f \<le> 100
      \<and> 0 \<le> MntGoldProds f \<and> 0 \<le> NumDealsPurchases f
      \<and> AcceptedCmp1 f \<in> set [0, 1] \<and> AcceptedCmp5 f \<in> set [0, 1] \<and> Response f \<in> set [0, 1]
      \<and> 0 \<le> NumCatalogPurchases f \<and> 0 \<le> Customer_Tenure f)"

definition user_input :: "form \<Rightarrow> frame" where
  "user_input f =
     (let Tenure_Years = real_of_int (Customer_Tenure f) / 365;
          Total_Spending = real_of_int (MntGoldProds f);
          Purchase_Frequency = real_of_int (NumDealsPurchases f + NumCatalogPurchases f);
          Profit_Margin = Total_Spending * 0.3;
          data = [(''Age'', real_of_int (Age f)),
                  (''Income'', real_of_int (Income f)),
                  (''Kidhome'', real_of_int (Kidhome f)),
                  (''Teenhome'', real_of_int (Teenhome f)),
                  (''Recency'', real_of_int (Recency f)),
                  (''MntGoldProds'', real_of_int (MntGoldProds f)),
                  (''NumDealsPurchases'', real_of_int (NumDealsPurchases f)),
                  (''AcceptedCmp1'', real_of_int (AcceptedCmp1 f)),
                  (''AcceptedCmp5'', real_of_int (AcceptedCmp5 f)),
                  (''Response'', real_of_int (Response f)),
                  (''NumCatalogPurchases'', real_of_int (NumCatalogPurchases f)),
                  (''Customer_Tenure'', real_of_int (Customer_Tenure f)),
                  (''Tenure_Years'', Tenure_Years),
                  (''Total_Spending'', Total_Spending),
                  (''Purchase_Frequency'', Purchase_Frequency),
                  (''Profit_Margin'', Profit_Margin)]
      in \<lparr>num_cols = map fst data, str_cols = [], date_cols = [],
          rows = [\<lparr>num = map_of data, str = (\<lambda>c. None), date = (\<lambda>c. None)\<rparr>]\<rparr>)"

text \<open>
  Lines 154-157, on pressing Predict CLV: \<^verbatim>\<open>input_df[c].values[0]\<close> and the manual CLV.
\<close>

definition values0 :: "frame \<Rightarrow> string \<Rightarrow> real option" where
  "values0 df c = (case rows df of [] \<Rightarrow> None | r # _ \<Rightarrow> num r c)"

definition manual_clv :: "frame \<Rightarrow> real option" where
  "manual_clv input_df =
     (let profit = values0 input_df ''Profit_Margin'';
          freq = values0 input_df ''Purchase_Frequency'';
          tenure = values0 input_df ''Tenure_Years''
      in mul (mul profit freq) tenure)"

text \<open>
  \<^verbatim>\<open>run_clv_dashboard\<close>, lines 48-77 of \<^verbatim>\<open>clv.py\<close>. A missing \<^verbatim>\<open>Dt_Customer\<close> column
  stops the page; an exception is caught and shown in place of the table.
\<close>

definition fill_missing :: "string list \<Rightarrow> frame \<Rightarrow> frame" where
  "fill_missing cols df =
     fold (\<lambda>col d. if col \<notin> set (columns d) then set_num col (\<lambda>_. Some 0) d else d) cols df"

definition run_clv_dashboard_features ::
  "(cell \<Rightarrow> int option) \<Rightarrow> int \<Rightarrow> int \<Rightarrow> frame \<Rightarrow> error + frame" where
  "run_clv_dashboard_features parse current_year now df0 =
     (if ''Dt_Customer'' \<notin> set (columns df0) then Inl Stop else
     (case to_datetime parse True ''Dt_Customer'' df0 of
        Inl e \<Rightarrow> Inl e
      | Inr df1 \<Rightarrow>
     (case (if ''Year_Birth'' \<in> set (columns df1) then check_num df1 [''Year_Birth''] else None) of
        Some e \<Rightarrow> Inl e
      | None \<Rightarrow>
     (let df2 = set_num ''Age''
                  (if ''Year_Birth'' \<in> set (columns df1) then age_of current_year else (\<lambda>_. None)) df1;
          df3 = set_num ''Customer_Tenure'' (tenure_days now) df2;
          df4 = set_num ''Tenure_Years'' tenure_years df3;
          df5 = fill_missing spend_cols df4
      in
     (case check_num df5 spend_cols of
        Some e \<Rightarrow> Inl e
      | None \<Rightarrow>
      let df6 = set_num ''Total_Spending'' (sum_axis1 spend_cols) df5;
          df7 = fill_missing purchase_cols df6
      in
     (case check_num df7 purchase_cols of
        Some e \<Rightarrow> Inl e
      | None \<Rightarrow>
      let df8 = set_num ''Purchase_Frequency'' (sum_axis1 purchase_cols) df7;
          df9 = set_num ''Profit_Margin'' profit_margin df8;
          df10 = set_num ''CLV'' (\<lambda>r. map_option round2 (clv_product r)) df9
      in Inr df10))))))"

text \<open>
  Lines 81-94: the three sidebar filters, each applied when its column exists. The
  selections are the values ticked in the multiselect widgets.
\<close>

definition isin_filter :: "string \<Rightarrow> cell list \<Rightarrow> frame \<Rightarrow> frame" where
  "isin_filter c selected df =
     (if c \<in> set (columns df)
      then df\<lparr>rows := filter (\<lambda>r. case cell df c r of None \<Rightarrow> False | Some v \<Rightarrow> v \<in> set selected)
                         (rows df)\<rparr>
      else df)"

definition run_clv_dashboard_table ::
  "(cell \<Rightarrow> int option) \<Rightarrow> int \<Rightarrow> int \<Rightarrow> cell list \<Rightarrow> cell list \<Rightarrow> cell list \<Rightarrow> frame
     \<Rightarrow> error + frame" where
  "run_clv_dashboard_table parse current_year now gender_filter marital_filter edu_filter df0 =
     (case run_clv_dashboard_features parse current_year now df0 of
        Inl e \<Rightarrow> Inl e
      | Inr df \<Rightarrow>
          Inr (isin_filter ''Education'' edu_filter
                (isin_filter ''Marital_Status'' marital_filter
                  (isin_filter ''Gender'' gender_filter df))))"

text \<open>
  Example data: a credential store before any sign-up, an admin session over a store of
  two users, and a transaction table in which tea is sold 50 times and milk 51 times.
\<close>

definition fresh_state :: state where
  "fresh_state = \<lparr>user_file = None, authenticated = False, username = [], selected_app = None\<rparr>"

definition admin_state :: state where
  "admin_state = \<lparr>user_file = Some [(''admin'', ''root''), (''bob'', ''pw'')],
                   authenticated = True, username = ''admin'', selected_app = None\<rparr>"

definition tea_row :: transaction where
  "tea_row = \<lparr>invoice = Some ''1'', item = Some ''tea''\<rparr>"

definition milk_row :: transaction where
  "milk_row = \<lparr>invoice = Some ''2'', item = Some ''milk''\<rparr>"

definition example_transactions :: "transaction list" where
  "example_transactions = replicate 50 tea_row @ replicate 51 milk_row"


text \<open>
  A customer table of the usual schema, one row per enrollment date given: the parser
  of the example reads one date, 2022-01-01, and the clock stands 730 days later.
\<close>

definition example_parse :: "cell \<Rightarrow> int option" where
  "example_parse v = (if v = Text ''2022-01-01'' then Some (1640995200 * 1000000000) else None)"

definition example_now :: int where
  "example_now = 1704067200 * 1000000000"

definition example_customer :: "string option \<Rightarrow> row" where
  "example_customer enrolled =
     \<lparr>num = map_of [(''Year_Birth'', 1980), (''Income'', 50000), (''Kidhome'', 0), (''Teenhome'', 1),
         (''Recency'', 10), (''MntWines'', 500), (''MntFruits'', 100), (''MntMeatProducts'', 200),
         (''MntFishProducts'', 50), (''MntSweetProducts'', 50), (''MntGoldProds'', 100),
         (''NumDealsPurchases'', 1), (''NumWebPurchases'', 2), (''NumCatalogPurchases'', 1),
         (''NumStorePurchases'', 1), (''AcceptedCmp1'', 0), (''AcceptedCmp5'', 0), (''Response'', 1)],
      str = (\<lambda>c. if c = ''Dt_Customer'' then enrolled else None),
      date = (\<lambda>_. None)\<rparr>"

definition example_table :: "string option list \<Rightarrow> frame" where
  "example_table enrolled =
     \<lparr>num_cols = [''Year_Birth'', ''Income'', ''Kidhome'', ''Teenhome'', ''Recency'', ''MntWines'',
         ''MntFruits'', ''MntMeatProducts'', ''MntFishProducts'', ''MntSweetProducts'', ''MntGoldProds'',
         ''NumDealsPurchases'', ''NumWebPurchases'', ''NumCatalogPurchases'', ''NumStorePurchases'',
         ''AcceptedCmp1'', ''AcceptedCmp5'', ''Response''],
      str_cols = [''Dt_Customer''], date_cols = [],
      rows = map example_customer enrolled\<rparr>"

text \<open>
  A training table with the target and the sixteen features, a fit that returns its
  hyperparameters as the model, a form filled for a customer enrolled at the reading of
  the clock, and that customer.
\<close>

definition example_training :: frame where
  "example_training =
     \<lparr>num_cols = ''CLV'' # features, str_cols = [], date_cols = [],
      rows = [\<lparr>num = (\<lambda>c. Some 1), str = (\<lambda>c. None), date = (\<lambda>c. None)\<rparr>]\<rparr>"

definition example_fit ::
  "hyperparameters \<Rightarrow> real option list list \<Rightarrow> real option list \<Rightarrow> error + hyperparameters" where
  "example_fit hp X y = Inr hp"

definition example_form :: form where
  "example_form = \<lparr>Age = 44, Income = 50000, Kidhome = 0, Teenhome = 1, Recency = 10,
     MntGoldProds = 100, NumDealsPurchases = 1, AcceptedCmp1 = 0, AcceptedCmp5 = 0, Response = 1,
     NumCatalogPurchases = 1, Customer_Tenure = 0\<rparr>"

definition example_newcomer :: row where
  "example_newcomer = assign_date ''Dt_Customer'' (\<lambda>r. Some example_now) (example_customer None)"

section \<open>Theorems\<close>

text \<open>
  C4. The sentiment scorer returns Neutral for a missing text; for a present text it
  returns Positive when the polarity is above 0.1, Negative when it is below -0.1 and
  Neutral otherwise, so that a polarity of exactly 0.1 or exactly -0.1 is Neutral. The
  label is a function of the text alone: equal texts receive equal labels.
\<close>

theorem get_sentiment_thresholds:
  "get_sentiment polarity None = Neutral
   \<and> (get_sentiment polarity (Some s) = Positive \<longleftrightarrow> polarity s > 0.1)
   \<and> (get_sentiment polarity (Some s) = Negative \<longleftrightarrow> polarity s < - 0.1)
   \<and> (get_sentiment polarity (Some s) = Neutral \<longleftrightarrow> - 0.1 \<le> polarity s \<and> polarity s \<le> 0.1)
   \<and> (polarity s = 0.1 \<or> polarity s = - 0.1 \<longrightarrow> get_sentiment polarity (Some s) = Neutral)
   \<and> (t = t' \<longrightarrow> get_sentiment polarity t = get_sentiment polarity t')"
  by (auto simp: get_sentiment_def)

theorem get_sentiment_thresholds_witness:
  "get_sentiment (\<lambda>s. if s = ''good'' then 0.1 else - 0.1) None = Neutral
   \<and> get_sentiment (\<lambda>s. if s = ''good'' then 0.1 else - 0.1) (Some ''good'') = Neutral
   \<and> get_sentiment (\<lambda>s. if s = ''good'' then 0.1 else - 0.1) (Some ''bad'') = Neutral"
  using get_sentiment_thresholds [of "\<lambda>s. if s = ''good'' then 0.1 else - 0.1" "''good''" "Some ''good''" "Some ''good''"]
    get_sentiment_thresholds [of "\<lambda>s. if s = ''good'' then 0.1 else - 0.1" "''bad''" "Some ''bad''" "Some ''bad''"]
  by simp

subsection \<open>Session and credential store\<close>

lemma failed_simps:
  "failed (Warning a)" "failed (Error a)" "\<not> failed (Success a)"
  "\<not> failed (Info a)" "\<not> failed Rerun" "\<not> failed Quiet"
  by (simp_all add: failed_def)

text \<open>
  C6. On the authentication sidebar of an unauthenticated session, pressing Create
  Account fails exactly when the username is already in the credential store or the
  username or the password is blank; pressing Reset Password fails exactly when the
  username is not in the store or the username or the new password is blank. Whenever a
  press of any of the three buttons fails (a login mismatch included), the state, that
  is the credential file and the session flags, is the one before the press.
\<close>

theorem auth_failures_leave_state:
  "(\<not> authenticated st \<longrightarrow>
      (failed (fst (auth_ui Sign_Up name password new_password True st)) \<longleftrightarrow>
         map_of (load_users st) name \<noteq> None \<or> strip name = [] \<or> strip password = []))
   \<and> (\<not> authenticated st \<longrightarrow>
      (failed (fst (auth_ui Reset_Password name password new_password True st)) \<longleftrightarrow>
         map_of (load_users st) name = None \<or> strip name = [] \<or> strip new_password = []))
   \<and> (failed (fst (auth_ui mode name password new_password pressed st)) \<longrightarrow>
         snd (auth_ui mode name password new_password pressed st) = st)"
  by (cases mode)
    (auto simp: auth_ui_def create_account_button_def reset_password_button_def
       login_button_def failed_simps Let_def)

theorem auth_failures_leave_state_witness:
  "\<not> authenticated fresh_state
   \<and> auth_ui Sign_Up ''alice'' ''pw'' [] True fresh_state =
       (Success ''Account created! Please login.'',
        fresh_state\<lparr>user_file := Some [(''alice'', ''pw'')]\<rparr>)
   \<and> failed (fst (auth_ui Sign_Up ''alice'' ''pw2'' [] True
        (fresh_state\<lparr>user_file := Some [(''alice'', ''pw'')]\<rparr>)))
   \<and> auth_ui Sign_Up ''alice'' ''pw2'' [] True (fresh_state\<lparr>user_file := Some [(''alice'', ''pw'')]\<rparr>) =
       (Error ''Username already exists.'', fresh_state\<lparr>user_file := Some [(''alice'', ''pw'')]\<rparr>)
   \<and> failed (fst (auth_ui Login ''alice'' ''wrong'' [] True
        (fresh_state\<lparr>user_file := Some [(''alice'', ''pw'')]\<rparr>)))
   \<and> snd (auth_ui Login ''alice'' ''wrong'' [] True
        (fresh_state\<lparr>user_file := Some [(''alice'', ''pw'')]\<rparr>)) =
       fresh_state\<lparr>user_file := Some [(''alice'', ''pw'')]\<rparr>"
  using
    auth_failures_leave_state [of "fresh_state\<lparr>user_file := Some [(''alice'', ''pw'')]\<rparr>"
      "''alice''" "''pw2''" "[]" Sign_Up True]
    auth_failures_leave_state [of "fresh_state\<lparr>user_file := Some [(''alice'', ''pw'')]\<rparr>"
      "''alice''" "''wrong''" "[]" Login True]
  by (simp add: fresh_state_def auth_ui_def create_account_button_def login_button_def
      load_users_def save_users_def strip_def isspace_def failed_simps)

lemma deletable_not_admin:
  "u \<in> set (deletable_users us) \<Longrightarrow> u \<noteq> ''admin'' \<and> u \<in> fst ` set us"
  by (auto simp: deletable_users_def)

lemma admin_panel_step:
  "map_of (load_users (snd (admin_panel choice pressed st))) k \<noteq> map_of (load_users st) k
     \<Longrightarrow> k \<in> set (deletable_users (load_users st))
         \<and> map_of (load_users (snd (admin_panel choice pressed st))) k = None"
  by (auto simp: admin_panel_def Let_def load_users_def save_users_def delete_conv'
      split: if_splits option.splits)

lemma admin_panel_admin:
  "map_of (load_users (snd (admin_panel choice pressed st))) ''admin'' =
   map_of (load_users st) ''admin''"
  using admin_panel_step [of choice pressed st "''admin''"]
    deletable_not_admin [of "''admin''" "load_users st"]
  by blast

lemma admin_session_admin:
  "map_of (load_users (admin_session clicks st)) ''admin'' = map_of (load_users st) ''admin''"
  unfolding admin_session_def
  by (induction clicks arbitrary: st) (auto simp: admin_panel_admin)

text \<open>
  C10. A render of the admin panel changes the entry of a username in the credential
  store only by removing it, and only for a username among the stored ones other than
  "admin"; so after any sequence of renders of the admin panel, whatever is selected and
  clicked, the entry of "admin" is the one the store had before.
\<close>

theorem admin_delete_spares_admin:
  "(map_of (load_users (snd (admin_panel choice pressed st))) k \<noteq> map_of (load_users st) k \<longrightarrow>
      k \<in> set (deletable_users (load_users st)) \<and> k \<noteq> ''admin''
      \<and> k \<in> fst ` set (load_users st)
      \<and> map_of (load_users (snd (admin_panel choice pressed st))) k = None)
   \<and> map_of (load_users (admin_session clicks st)) ''admin'' = map_of (load_users st) ''admin''"
  using admin_panel_step [of choice pressed st k]
    deletable_not_admin [of k "load_users st"] admin_session_admin [of clicks st]
  by blast

theorem admin_delete_spares_admin_witness:
  "map_of (load_users (snd (admin_panel 0 True admin_state))) ''bob'' \<noteq>
     map_of (load_users admin_state) ''bob''
   \<and> ''bob'' \<in> set (deletable_users (load_users admin_state))
   \<and> map_of (load_users admin_state) ''admin'' = Some ''root''
   \<and> load_users (admin_session [(0, True), (0, True), (1, True)] admin_state) = [(''admin'', ''root'')]
   \<and> map_of (load_users (admin_session [(0, True), (0, True), (1, True)] admin_state)) ''admin'' =
       Some ''root''"
  using admin_delete_spares_admin [of 0 True admin_state "''bob''" "[(0, True), (0, True), (1, True)]"]
  by (simp add: admin_state_def admin_session_def admin_panel_def deletable_users_def
      load_users_def save_users_def AList.delete_eq)

subsection \<open>Market basket\<close>

lemma common_items_iff: "i \<in> set (common_items col) \<longleftrightarrow> 50 < count_list col (Some i)"
proof -
  have "50 < count_list col (Some i) \<Longrightarrow> Some i \<in> set col"
    using count_notin [of "Some i" col] by (cases "Some i \<in> set col") auto
  then show ?thesis
    by (force simp: common_items_def value_counts_def split: option.splits)
qed

lemma filter_common_eq:
  "filter_common df =
   filter (\<lambda>r. \<exists>i. item r = Some i \<and> 50 < count_list (map item df) (Some i)) df"
  unfolding filter_common_def Let_def
  by (rule filter_cong) (auto simp: common_items_iff split: option.splits)

lemma count_list_replicate: "count_list (replicate n x) y = (if x = y then n else 0)"
  by (induction n) auto

text \<open>
  C8. Before the basket matrix is built, the transaction table is filtered, order and
  repetitions kept, to the rows whose item name occurs more than 50 times in the item
  column: a row whose item occurs at most 50 times is removed and a row whose item occurs
  more than 50 times is kept (a row with no item name is removed).
\<close>

theorem filter_common_threshold:
  "filter_common df =
     filter (\<lambda>r. \<exists>i. item r = Some i \<and> 50 < count_list (map item df) (Some i)) df
   \<and> (r \<in> set df \<and> item r = Some i \<and> count_list (map item df) (Some i) \<le> 50 \<longrightarrow>
        r \<notin> set (filter_common df))
   \<and> (r \<in> set df \<and> item r = Some i \<and> 50 < count_list (map item df) (Some i) \<longrightarrow>
        r \<in> set (filter_common df))
   \<and> (item r = None \<longrightarrow> r \<notin> set (filter_common df))"
  by (auto simp: filter_common_eq)

theorem filter_common_threshold_witness:
  "tea_row \<in> set example_transactions \<and> item tea_row = Some ''tea''
   \<and> count_list (map item example_transactions) (Some ''tea'') = 50
   \<and> tea_row \<notin> set (filter_common example_transactions)
   \<and> milk_row \<in> set example_transactions \<and> item milk_row = Some ''milk''
   \<and> count_list (map item example_transactions) (Some ''milk'') = 51
   \<and> milk_row \<in> set (filter_common example_transactions)"
proof -
  have tea: "tea_row \<in> set example_transactions" "item tea_row = Some ''tea''"
    "count_list (map item example_transactions) (Some ''tea'') = 50"
    by (simp_all add: example_transactions_def tea_row_def milk_row_def count_list_append
        count_list_replicate)
  have milk: "milk_row \<in> set example_transactions" "item milk_row = Some ''milk''"
    "count_list (map item example_transactions) (Some ''milk'') = 51"
    by (simp_all add: example_transactions_def tea_row_def milk_row_def count_list_append
        count_list_replicate)
  show ?thesis
    using tea milk filter_common_threshold [of example_transactions tea_row "''tea''"]
      filter_common_threshold [of example_transactions milk_row "''milk''"]
    by simp
qed



subsection \<open>Customer tables: frames, columns and rows\<close>

lemma set_num_sel:
  "set (num_cols (set_num c f df)) = insert c (set (num_cols df))"
  "set (str_cols (set_num c f df)) = set (str_cols df) - {c}"
  "set (date_cols (set_num c f df)) = set (date_cols df) - {c}"
  "rows (set_num c f df) = map (assign_num c f) (rows df)"
  by (auto simp: set_num_def)

lemma set_date_sel:
  "set (num_cols (set_date c f df)) = set (num_cols df) - {c}"
  "set (str_cols (set_date c f df)) = set (str_cols df) - {c}"
  "set (date_cols (set_date c f df)) = insert c (set (date_cols df))"
  "rows (set_date c f df) = map (assign_date c f) (rows df)"
  by (auto simp: set_date_def)

lemma dropna_sel:
  "num_cols (dropna df) = num_cols df"
  "str_cols (dropna df) = str_cols df"
  "date_cols (dropna df) = date_cols df"
  "rows (dropna df) = filter (\<lambda>r. \<not> isna_any df r) (rows df)"
  by (simp_all add: dropna_def)

lemma assign_sel:
  "num (assign_num c f r) = (num r)(c := f r)"
  "str (assign_num c f r) = str r"
  "date (assign_num c f r) = date r"
  "num (assign_date c g r) = num r"
  "str (assign_date c g r) = str r"
  "date (assign_date c g r) = (date r)(c := g r)"
  by (simp_all add: assign_num_def assign_date_def)

lemma set_columns: "set (columns df) = set (num_cols df) \<union> set (str_cols df) \<union> set (date_cols df)"
  by (auto simp: columns_def)

lemma check_num_None: "check_num df cs = None \<longleftrightarrow> set cs \<subseteq> set (num_cols df)"
proof -
  have a: "filter (\<lambda>c. c \<notin> set (columns df)) cs = [] \<longleftrightarrow> set cs \<subseteq> set (columns df)"
    by (auto simp: filter_empty_conv)
  have b: "filter (\<lambda>c. c \<notin> set (num_cols df)) cs = [] \<longleftrightarrow> set cs \<subseteq> set (num_cols df)"
    by (auto simp: filter_empty_conv)
  have c: "set (num_cols df) \<subseteq> set (columns df)" by (auto simp: columns_def)
  show ?thesis
    unfolding check_num_def using a b c
    by (auto split: list.splits)
qed

lemma isna_any_iff:
  "isna_any df r \<longleftrightarrow> (\<exists>c\<in>set (num_cols df). num r c = None) \<or> (\<exists>c\<in>set (str_cols df). str r c = None)
      \<or> (\<exists>c\<in>set (date_cols df). date r c = None)"
  by (simp add: isna_any_def list_ex_iff)

lemma total_cong: "(\<And>c. c \<in> set cols \<Longrightarrow> num r' c = num r c) \<Longrightarrow> total cols r' = total cols r"
  unfolding total_def by (rule arg_cong [where f = sum_list]) (simp cong: map_cong)

lemma spend_total_assign:
  "c \<notin> set cols \<Longrightarrow> total cols (assign_num c f r) = total cols r"
  by (rule total_cong) (auto simp: assign_sel)

lemma derive_row_fields:
  "num (derive_row y now r) ''Age'' = age_of y r"
  "num (derive_row y now r) ''Customer_Tenure'' = tenure_days now r"
  "num (derive_row y now r) ''Tenure_Years'' = map_option (\<lambda>d. d / 365) (tenure_days now r)"
  "num (derive_row y now r) ''Total_Spending'' = Some (total spend_cols r)"
  "num (derive_row y now r) ''Purchase_Frequency'' = Some (total purchase_cols r)"
  "num (derive_row y now r) ''Profit_Margin'' = Some (total spend_cols r * 0.3)"
  "num (derive_row y now r) ''CLV'' =
     map_option (\<lambda>d. round2 (total spend_cols r * 0.3 * total purchase_cols r * (d / 365))) (tenure_days now r)"
  "str (derive_row y now r) = str r"
  "date (derive_row y now r) = date r"
proof -
  have s: "''Age'' \<notin> set spend_cols" "''Customer_Tenure'' \<notin> set spend_cols" "''Tenure_Years'' \<notin> set spend_cols"
    "''Age'' \<notin> set purchase_cols" "''Customer_Tenure'' \<notin> set purchase_cols" "''Tenure_Years'' \<notin> set purchase_cols"
    "''Total_Spending'' \<notin> set purchase_cols"
    by (simp_all add: spend_cols_def purchase_cols_def)
  show "num (derive_row y now r) ''Age'' = age_of y r"
    "num (derive_row y now r) ''Customer_Tenure'' = tenure_days now r"
    "num (derive_row y now r) ''Tenure_Years'' = map_option (\<lambda>d. d / 365) (tenure_days now r)"
    "num (derive_row y now r) ''Total_Spending'' = Some (total spend_cols r)"
    "num (derive_row y now r) ''Purchase_Frequency'' = Some (total purchase_cols r)"
    "num (derive_row y now r) ''Profit_Margin'' = Some (total spend_cols r * 0.3)"
    "num (derive_row y now r) ''CLV'' =
       map_option (\<lambda>d. round2 (total spend_cols r * 0.3 * total purchase_cols r * (d / 365))) (tenure_days now r)"
    "str (derive_row y now r) = str r"
    "date (derive_row y now r) = date r"
    by (simp_all add: derive_row_def Let_def assign_sel tenure_days_def tenure_years_def
        profit_margin_def clv_product_def sum_axis1_def mul_def option.map_comp o_def
        spend_total_assign s age_of_def)
qed

lemma derive_row_other: "c \<notin> set derived_cols \<Longrightarrow> num (derive_row y now r) c = num r c"
  by (simp add: derive_row_def Let_def assign_sel derived_cols_def)

lemma to_datetime_Inr:
  assumes "to_datetime parse coerce c df = Inr df1"
  shows "length (rows df1) = length (rows df)" and "c \<in> set (date_cols df1)"
    and "df1 = df \<or> df1 = set_date c (parse_cell parse df c) df"
  using assms by (auto simp: to_datetime_def set_date_sel split: if_splits)

lemma total_derive_row:
  "total spend_cols (derive_row y now r) = total spend_cols r"
  "total purchase_cols (derive_row y now r) = total purchase_cols r"
  by (rule total_cong, simp add: derive_row_other derived_cols_def spend_cols_def purchase_cols_def,
      (erule disjE, simp add: derive_row_other derived_cols_def)+, simp add: derive_row_other derived_cols_def)+

lemma run_clv_features_Inr:
  assumes "run_clv_features parse y now df = Inr out"
  obtains df1 where "to_datetime parse False ''Dt_Customer'' df = Inr df1"
    and "set (''Year_Birth'' # spend_cols @ purchase_cols) \<subseteq> set (num_cols df1)"
    and "rows out = filter (\<lambda>r. \<not> isna_any out r) (map (derive_row y now) (rows df1))"
    and "set (num_cols out) = set (num_cols df1) \<union> set derived_cols"
    and "set (str_cols out) = set (str_cols df1) - set derived_cols"
    and "set (date_cols out) = set (date_cols df1) - set derived_cols"
proof -
  from assms obtain df1 where d1: "to_datetime parse False ''Dt_Customer'' df = Inr df1"
    by (auto simp: run_clv_features_def split: sum.splits)
  define df4 where "df4 = set_num ''Tenure_Years'' tenure_years
    (set_num ''Customer_Tenure'' (tenure_days now) (set_num ''Age'' (age_of y) df1))"
  define df5 where "df5 = set_num ''Total_Spending'' (sum_axis1 spend_cols) df4"
  define df9 where "df9 = set_num ''CLV'' (\<lambda>r. map_option round2 (num r ''CLV''))
    (set_num ''CLV'' clv_product (set_num ''Profit_Margin'' profit_margin
      (set_num ''Purchase_Frequency'' (sum_axis1 purchase_cols) df5)))"
  from assms d1 have c1: "check_num df1 [''Year_Birth''] = None"
    and c2: "check_num df4 spend_cols = None"
    and c3: "check_num df5 purchase_cols = None"
    and o: "out = dropna df9"
    by (auto simp: run_clv_features_def Let_def df4_def df5_def df9_def split: option.splits)
  have n4: "set (num_cols df4) = set (num_cols df1) \<union> {''Age'', ''Customer_Tenure'', ''Tenure_Years''}"
    by (auto simp: df4_def set_num_sel)
  have n5: "set (num_cols df5) = set (num_cols df4) \<union> {''Total_Spending''}"
    by (auto simp: df5_def set_num_sel)
  have sub: "set (''Year_Birth'' # spend_cols @ purchase_cols) \<subseteq> set (num_cols df1)"
    using c1 c2 c3 unfolding check_num_None n5 n4
    by (auto simp: spend_cols_def purchase_cols_def)
  have r9: "rows df9 = map (derive_row y now) (rows df1)"
    by (simp add: df9_def df5_def df4_def set_num_sel derive_row_def Let_def o_def)
  have rws: "rows out = filter (\<lambda>r. \<not> isna_any out r) (map (derive_row y now) (rows df1))"
    unfolding o dropna_sel r9
    by (rule filter_cong) (simp_all add: isna_any_def dropna_sel)
  have nc: "set (num_cols out) = set (num_cols df1) \<union> set derived_cols"
    by (auto simp: o dropna_sel df9_def df5_def df4_def set_num_sel derived_cols_def)
  have sc: "set (str_cols out) = set (str_cols df1) - set derived_cols"
    by (auto simp: o dropna_sel df9_def df5_def df4_def set_num_sel derived_cols_def)
  have dc: "set (date_cols out) = set (date_cols df1) - set derived_cols"
    by (auto simp: o dropna_sel df9_def df5_def df4_def set_num_sel derived_cols_def)
  from that [OF d1 sub rws nc sc dc] show thesis .
qed

lemma run_clv_features_total:
  assumes d1: "to_datetime parse False ''Dt_Customer'' df = Inr df1"
    and sub: "set (''Year_Birth'' # spend_cols @ purchase_cols) \<subseteq> set (num_cols df1)"
  shows "\<exists>out. run_clv_features parse y now df = Inr out"
proof -
  have c1: "check_num df1 [''Year_Birth''] = None"
    using sub by (simp add: check_num_None)
  have c2: "check_num (set_num ''Tenure_Years'' tenure_years
      (set_num ''Customer_Tenure'' (tenure_days now) (set_num ''Age'' (age_of y) df1))) spend_cols = None"
    using sub by (auto simp: check_num_None set_num_sel)
  have c3: "check_num (set_num ''Total_Spending'' (sum_axis1 spend_cols) (set_num ''Tenure_Years'' tenure_years
      (set_num ''Customer_Tenure'' (tenure_days now) (set_num ''Age'' (age_of y) df1)))) purchase_cols = None"
    using sub by (auto simp: check_num_None set_num_sel)
  show ?thesis
    by (simp add: run_clv_features_def d1 c1 c2 c3 Let_def)
qed

lemma fill_missing_Cons:
  "fill_missing (c # cs) df =
     fill_missing cs (if c \<notin> set (columns df) then set_num c (\<lambda>_. Some 0) df else df)"
  by (simp add: fill_missing_def)

lemma fill_missing_Nil: "fill_missing [] df = df"
  by (simp add: fill_missing_def)

lemma fill_missing_id: "set cols \<subseteq> set (columns df) \<Longrightarrow> fill_missing cols df = df"
  by (induction cols arbitrary: df) (simp_all add: fill_missing_Cons fill_missing_Nil)

lemma fill_missing_length: "length (rows (fill_missing cols df)) = length (rows df)"
  by (induction cols arbitrary: df) (simp_all add: fill_missing_Cons fill_missing_Nil set_num_sel)

lemma fill_missing_rows:
  "r' \<in> set (rows (fill_missing cols df)) \<Longrightarrow>
     \<exists>r\<in>set (rows df). str r' = str r \<and> date r' = date r \<and> (\<forall>c. c \<notin> set cols \<longrightarrow> num r' c = num r c)"
proof (induction cols arbitrary: df)
  case Nil
  then show ?case by (auto simp: fill_missing_Nil)
next
  case (Cons a cols)
  from Cons.prems have "r' \<in> set (rows (fill_missing cols
      (if a \<notin> set (columns df) then set_num a (\<lambda>_. Some 0) df else df)))"
    by (simp add: fill_missing_Cons)
  from Cons.IH [OF this] obtain r where
    r: "r \<in> set (rows (if a \<notin> set (columns df) then set_num a (\<lambda>_. Some 0) df else df))"
    and s: "str r' = str r" "date r' = date r" "\<forall>c. c \<notin> set cols \<longrightarrow> num r' c = num r c"
    by blast
  show ?case
  proof (cases "a \<notin> set (columns df)")
    case True
    with r obtain r0 where "r0 \<in> set (rows df)" "r = assign_num a (\<lambda>_. Some 0) r0"
      by (auto simp: set_num_sel)
    with s show ?thesis
      by (intro bexI [of _ r0]) (auto simp: assign_sel)
  next
    case False
    with r s show ?thesis by (intro bexI [of _ r]) auto
  qed
qed

lemma tenure_days_derive_row: "tenure_days now (derive_row y now r) = tenure_days now r"
  by (simp add: tenure_days_def derive_row_fields)

lemma derive_row_facts:
  "num (derive_row y now r) ''Customer_Tenure'' = tenure_days now (derive_row y now r)"
  "num (derive_row y now r) ''Tenure_Years'' =
     map_option (\<lambda>d. d / 365) (num (derive_row y now r) ''Customer_Tenure'')"
  "num (derive_row y now r) ''Total_Spending'' = Some (total spend_cols (derive_row y now r))"
  "num (derive_row y now r) ''Purchase_Frequency'' = Some (total purchase_cols (derive_row y now r))"
  "num (derive_row y now r) ''Profit_Margin'' = Some (total spend_cols (derive_row y now r) * 0.3)"
  "num (derive_row y now r) ''CLV'' =
     map_option (\<lambda>t. round2 (total spend_cols (derive_row y now r) * 0.3
        * total purchase_cols (derive_row y now r) * t)) (num (derive_row y now r) ''Tenure_Years'')"
  by (simp_all add: derive_row_fields total_derive_row tenure_days_derive_row option.map_comp o_def)

lemma dashboard_features_Inr:
  assumes "run_clv_dashboard_features parse y now df = Inr out"
  shows "length (rows out) = length (rows df)"
    and "r \<in> set (rows out) \<Longrightarrow>
      num r ''Customer_Tenure'' = tenure_days now r
      \<and> num r ''Tenure_Years'' = map_option (\<lambda>d. d / 365) (num r ''Customer_Tenure'')
      \<and> num r ''Total_Spending'' = Some (total spend_cols r)
      \<and> num r ''Purchase_Frequency'' = Some (total purchase_cols r)
      \<and> num r ''Profit_Margin'' = Some (total spend_cols r * 0.3)
      \<and> num r ''CLV'' = map_option (\<lambda>t. round2 (total spend_cols r * 0.3 * total purchase_cols r * t))
            (num r ''Tenure_Years'')"
proof -
  from assms obtain df1 where d1: "to_datetime parse True ''Dt_Customer'' df = Inr df1"
    by (auto simp: run_clv_dashboard_features_def split: sum.splits if_splits)
  define age where "age = (if ''Year_Birth'' \<in> set (columns df1) then age_of y else (\<lambda>_. None))"
  define df4 where "df4 = set_num ''Tenure_Years'' tenure_years
    (set_num ''Customer_Tenure'' (tenure_days now) (set_num ''Age'' age df1))"
  define df5 where "df5 = fill_missing spend_cols df4"
  define df6 where "df6 = set_num ''Total_Spending'' (sum_axis1 spend_cols) df5"
  define df7 where "df7 = fill_missing purchase_cols df6"
  define df10 where "df10 = set_num ''CLV'' (\<lambda>r. map_option round2 (clv_product r))
    (set_num ''Profit_Margin'' profit_margin
      (set_num ''Purchase_Frequency'' (sum_axis1 purchase_cols) df7))"
  from assms d1 have o: "out = df10"
    by (auto simp: run_clv_dashboard_features_def Let_def df4_def df5_def df6_def df7_def df10_def age_def
        split: option.splits if_splits)
  show "length (rows out) = length (rows df)"
    using to_datetime_Inr(1) [OF d1]
    by (simp add: o df10_def df7_def df6_def df5_def df4_def set_num_sel fill_missing_length)
  assume "r \<in> set (rows out)"
  then obtain r7 where r7: "r7 \<in> set (rows df7)"
    and r: "r = assign_num ''CLV'' (\<lambda>r. map_option round2 (clv_product r))
      (assign_num ''Profit_Margin'' profit_margin
        (assign_num ''Purchase_Frequency'' (sum_axis1 purchase_cols) r7))"
    by (auto simp: o df10_def set_num_sel)
  from fill_missing_rows [OF r7 [unfolded df7_def]] obtain r6 where r6: "r6 \<in> set (rows df6)"
    and s7: "date r7 = date r6" "\<forall>c. c \<notin> set purchase_cols \<longrightarrow> num r7 c = num r6 c"
    by blast
  from r6 obtain r5 where r5: "r5 \<in> set (rows df5)"
    and r6e: "r6 = assign_num ''Total_Spending'' (sum_axis1 spend_cols) r5"
    by (auto simp: df6_def set_num_sel)
  from fill_missing_rows [OF r5 [unfolded df5_def]] obtain r4 where r4: "r4 \<in> set (rows df4)"
    and s5: "date r5 = date r4" "\<forall>c. c \<notin> set spend_cols \<longrightarrow> num r5 c = num r4 c"
    by blast
  from r4 obtain r1 where r4e: "r4 = assign_num ''Tenure_Years'' tenure_years
      (assign_num ''Customer_Tenure'' (tenure_days now) (assign_num ''Age'' age r1))"
    by (auto simp: df4_def set_num_sel)
  have ct7: "num r7 ''Customer_Tenure'' = tenure_days now r7"
    and ty7: "num r7 ''Tenure_Years'' = map_option (\<lambda>d. d / 365) (num r7 ''Customer_Tenure'')"
    and ts7: "num r7 ''Total_Spending'' = Some (total spend_cols r7)"
    using s7 s5
    by (simp_all add: r6e r4e assign_sel tenure_days_def tenure_years_def sum_axis1_def
        spend_cols_def purchase_cols_def total_def)
  have t1: "total spend_cols r = total spend_cols r7" "total purchase_cols r = total purchase_cols r7"
    by (simp_all add: r total_def assign_sel spend_cols_def purchase_cols_def)
  show "num r ''Customer_Tenure'' = tenure_days now r
      \<and> num r ''Tenure_Years'' = map_option (\<lambda>d. d / 365) (num r ''Customer_Tenure'')
      \<and> num r ''Total_Spending'' = Some (total spend_cols r)
      \<and> num r ''Purchase_Frequency'' = Some (total purchase_cols r)
      \<and> num r ''Profit_Margin'' = Some (total spend_cols r * 0.3)
      \<and> num r ''CLV'' = map_option (\<lambda>t. round2 (total spend_cols r * 0.3 * total purchase_cols r * t))
            (num r ''Tenure_Years'')"
    unfolding t1 using ct7 ty7 ts7
    by (simp add: r assign_sel tenure_days_def profit_margin_def clv_product_def sum_axis1_def mul_def
        option.map_comp o_def)
qed

lemma isin_filter_rows: "set (rows (isin_filter c sel df)) \<subseteq> set (rows df)"
  by (auto simp: isin_filter_def)

lemma set_num_columns: "set (columns (set_num c f df)) = insert c (set (columns df))"
  by (auto simp: set_columns set_num_sel)

lemma to_datetime_columns:
  assumes "to_datetime parse coerce c df = Inr df1"
  shows "c \<in> set (columns df)" and "set (columns df1) = set (columns df)"
  using assms by (auto simp: to_datetime_def set_columns set_date_sel split: if_splits)

lemma assign_clv_once:
  "assign_num ''CLV'' (\<lambda>r. map_option round2 (num r ''CLV'')) (assign_num ''CLV'' clv_product r) =
   assign_num ''CLV'' (\<lambda>r. map_option round2 (clv_product r)) r"
  by (simp add: assign_num_def)

lemma dashboard_features_full:
  assumes d1: "to_datetime parse True ''Dt_Customer'' df = Inr df1"
    and sub: "set (''Year_Birth'' # spend_cols @ purchase_cols) \<subseteq> set (num_cols df1)"
  shows "\<exists>out. run_clv_dashboard_features parse y now df = Inr out
           \<and> rows out = map (derive_row y now) (rows df1)
           \<and> set (columns out) = set (columns df) \<union> set derived_cols"
proof -
  let ?df4 = "set_num ''Tenure_Years'' tenure_years
      (set_num ''Customer_Tenure'' (tenure_days now) (set_num ''Age'' (age_of y) df1))"
  let ?df6 = "set_num ''Total_Spending'' (sum_axis1 spend_cols) ?df4"
  have c0: "''Dt_Customer'' \<in> set (columns df)" "set (columns df1) = set (columns df)"
    using to_datetime_columns [OF d1] by auto
  have yb: "''Year_Birth'' \<in> set (columns df1)" "''Year_Birth'' \<in> set (columns df)"
    using sub c0 by (auto simp: set_columns)
  have c1: "check_num df1 [''Year_Birth''] = None"
    using sub by (simp add: check_num_None)
  have f5: "fill_missing spend_cols ?df4 = ?df4"
    using sub by (intro fill_missing_id) (auto simp: set_columns set_num_sel)
  have c2: "check_num ?df4 spend_cols = None"
    using sub by (auto simp: check_num_None set_num_sel)
  have f7: "fill_missing purchase_cols ?df6 = ?df6"
    using sub by (intro fill_missing_id) (auto simp: set_columns set_num_sel)
  have c3: "check_num ?df6 purchase_cols = None"
    using sub by (auto simp: check_num_None set_num_sel)
  have "run_clv_dashboard_features parse y now df =
      Inr (set_num ''CLV'' (\<lambda>r. map_option round2 (clv_product r))
        (set_num ''Profit_Margin'' profit_margin
          (set_num ''Purchase_Frequency'' (sum_axis1 purchase_cols) ?df6)))"
    by (simp add: run_clv_dashboard_features_def c0 d1 yb c1 Let_def f5 c2 f7 c3)
  moreover have "rows (set_num ''CLV'' (\<lambda>r. map_option round2 (clv_product r))
        (set_num ''Profit_Margin'' profit_margin
          (set_num ''Purchase_Frequency'' (sum_axis1 purchase_cols) ?df6))) = map (derive_row y now) (rows df1)"
    by (simp add: set_num_sel derive_row_def Let_def o_def assign_clv_once)
  moreover have "set (columns (set_num ''CLV'' (\<lambda>r. map_option round2 (clv_product r))
        (set_num ''Profit_Margin'' profit_margin
          (set_num ''Purchase_Frequency'' (sum_axis1 purchase_cols) ?df6)))) = set (columns df) \<union> set derived_cols"
    by (auto simp: set_num_columns c0 derived_cols_def)
  ultimately show ?thesis by simp
qed

lemma isin_filter_absent: "c \<notin> set (columns df) \<Longrightarrow> isin_filter c sel df = df"
  by (simp add: isin_filter_def)

lemma isin_filter_columns: "columns (isin_filter c sel df) = columns df"
  by (simp add: isin_filter_def columns_def)

lemma run_clv_rows:
  assumes o: "run_clv_features parse y now df = Inr out" and r: "r \<in> set (rows out)"
  shows "\<exists>r1. r = derive_row y now r1" and "\<not> isna_any out r"
    and "\<forall>c\<in>set (''Year_Birth'' # spend_cols @ purchase_cols @ derived_cols). num r c \<noteq> None"
    and "date r ''Dt_Customer'' \<noteq> None"
proof -
  obtain df1 where
    d1: "to_datetime parse False ''Dt_Customer'' df = Inr df1"
    and sub: "set (''Year_Birth'' # spend_cols @ purchase_cols) \<subseteq> set (num_cols df1)"
    and rws: "rows out = filter (\<lambda>r. \<not> isna_any out r) (map (derive_row y now) (rows df1))"
    and nc: "set (num_cols out) = set (num_cols df1) \<union> set derived_cols"
    and sc: "set (str_cols out) = set (str_cols df1) - set derived_cols"
    and dc: "set (date_cols out) = set (date_cols df1) - set derived_cols"
    by (rule run_clv_features_Inr [OF o])
  from r rws show "\<exists>r1. r = derive_row y now r1" by auto
  from r rws show na: "\<not> isna_any out r" by auto
  have "set (''Year_Birth'' # spend_cols @ purchase_cols @ derived_cols) \<subseteq> set (num_cols out)"
    using sub nc by auto
  with na show "\<forall>c\<in>set (''Year_Birth'' # spend_cols @ purchase_cols @ derived_cols). num r c \<noteq> None"
    unfolding isna_any_iff by (meson subsetD)
  have "''Dt_Customer'' \<in> set (date_cols out)"
    using to_datetime_Inr(2) [OF d1] dc by (simp add: derived_cols_def)
  with na show "date r ''Dt_Customer'' \<noteq> None"
    unfolding isna_any_iff by meson
qed

lemma dashboard_table_rows:
  assumes "run_clv_dashboard_table parse y now g m e df = Inr out" and "r \<in> set (rows out)"
  shows "\<exists>d. run_clv_dashboard_features parse y now df = Inr d \<and> r \<in> set (rows d)"
proof -
  from assms(1) obtain d where d: "run_clv_dashboard_features parse y now df = Inr d"
    and o: "out = isin_filter ''Education'' e (isin_filter ''Marital_Status'' m (isin_filter ''Gender'' g d))"
    by (auto simp: run_clv_dashboard_table_def split: sum.splits)
  from assms(2) have "r \<in> set (rows d)"
    unfolding o using isin_filter_rows by blast
  with d show ?thesis by blast
qed


subsection \<open>The example table, evaluated\<close>

lemma example_parsed:
  "parse_cell example_parse (example_table ds) ''Dt_Customer'' (example_customer d) =
     (if d = Some ''2022-01-01'' then Some (1640995200 * 1000000000) else None)"
  by (cases d) (auto simp: parse_cell_def cell_def example_table_def example_customer_def example_parse_def)

lemma example_cell:
  "cell (example_table ds) ''Dt_Customer'' (example_customer d) = map_option Text d"
  by (simp add: cell_def example_table_def example_customer_def)

lemma example_num_cols:
  "set (''Year_Birth'' # spend_cols @ purchase_cols) \<subseteq> set (num_cols (example_table ds))"
  by (simp add: example_table_def spend_cols_def purchase_cols_def)

lemma example_row_fields:
  "total spend_cols (assign_date c f (example_customer d)) = 1000"
  "total purchase_cols (assign_date c f (example_customer d)) = 5"
  "tenure_days example_now (assign_date ''Dt_Customer'' f (example_customer d)) =
     map_option (\<lambda>t. of_int ((example_now - t) div day)) (f (example_customer d))"
  by (simp_all add: total_def spend_cols_def purchase_cols_def assign_sel example_customer_def tenure_days_def)

lemma example_no_null:
  "c \<in> set (num_cols (example_table ds)) \<Longrightarrow> num (example_customer d) c \<noteq> None"
  by (auto simp: example_table_def example_customer_def)

lemma example_to_datetime:
  "set ds \<subseteq> {None, Some ''2022-01-01''} \<or> coerce \<Longrightarrow>
   to_datetime example_parse coerce ''Dt_Customer'' (example_table ds) =
     Inr (set_date ''Dt_Customer'' (parse_cell example_parse (example_table ds) ''Dt_Customer'') (example_table ds))"
proof -
  have r: "rows (example_table ds) = map example_customer ds"
    and c: "''Dt_Customer'' \<in> set (columns (example_table ds))"
    and d: "''Dt_Customer'' \<notin> set (date_cols (example_table ds))"
    by (simp_all add: example_table_def columns_def)
  assume "set ds \<subseteq> {None, Some ''2022-01-01''} \<or> coerce"
  then have "\<not> (\<not> coerce \<and> list_ex (\<lambda>r. cell (example_table ds) ''Dt_Customer'' r \<noteq> None
       \<and> parse_cell example_parse (example_table ds) ''Dt_Customer'' r = None) (rows (example_table ds)))"
    by (auto simp: list_ex_iff r example_parsed example_cell)
  with c d show ?thesis
    by (simp add: to_datetime_def)
qed

lemma example_rows:
  "rows (set_date ''Dt_Customer'' (parse_cell example_parse (example_table ds) ''Dt_Customer'') (example_table ds)) =
   map (\<lambda>d. assign_date ''Dt_Customer'' (parse_cell example_parse (example_table ds) ''Dt_Customer'') (example_customer d)) ds"
  by (simp add: set_date_sel example_table_def o_def)

lemma example_tenure:
  "tenure_days example_now (assign_date ''Dt_Customer''
       (parse_cell example_parse (example_table ds) ''Dt_Customer'') (example_customer d)) =
     (if d = Some ''2022-01-01'' then Some 730 else None)"
  by (simp only: example_row_fields example_parsed) (simp add: example_now_def day_def)

lemma round2_3000: "round2 (1000 * 3 / 10 * 5 * (730 / 365)) = 3000"
  by (simp add: round2_def rint_def)

lemma example_age:
  "num (derive_row 2024 example_now (assign_date ''Dt_Customer''
       (parse_cell example_parse (example_table ds) ''Dt_Customer'') (example_customer d))) ''Age'' = Some 44"
  by (simp add: derive_row_fields age_of_def assign_sel example_customer_def)

lemma example_derived:
  "num (derive_row 2024 example_now (assign_date ''Dt_Customer''
       (parse_cell example_parse (example_table ds) ''Dt_Customer'') (example_customer d))) ''Customer_Tenure'' =
     (if d = Some ''2022-01-01'' then Some 730 else None)"
  "num (derive_row 2024 example_now (assign_date ''Dt_Customer''
       (parse_cell example_parse (example_table ds) ''Dt_Customer'') (example_customer d))) ''Tenure_Years'' =
     (if d = Some ''2022-01-01'' then Some 2 else None)"
  "num (derive_row 2024 example_now (assign_date ''Dt_Customer''
       (parse_cell example_parse (example_table ds) ''Dt_Customer'') (example_customer d))) ''Total_Spending'' =
     Some 1000"
  "num (derive_row 2024 example_now (assign_date ''Dt_Customer''
       (parse_cell example_parse (example_table ds) ''Dt_Customer'') (example_customer d))) ''Purchase_Frequency'' =
     Some 5"
  "num (derive_row 2024 example_now (assign_date ''Dt_Customer''
       (parse_cell example_parse (example_table ds) ''Dt_Customer'') (example_customer d))) ''Profit_Margin'' =
     Some 300"
  by (simp_all add: derive_row_fields example_row_fields(1,2) example_tenure)

lemma example_clv:
  "num (derive_row 2024 example_now (assign_date ''Dt_Customer''
       (parse_cell example_parse (example_table ds) ''Dt_Customer'') (example_customer d))) ''CLV'' =
     (if d = Some ''2022-01-01'' then Some 3000 else None)"
  by (simp add: derive_row_fields example_row_fields(1,2) example_tenure round2_def rint_def)

lemma example_run_clv:
  "\<exists>out. run_clv_features example_parse 2024 example_now (example_table [Some ''2022-01-01'', None]) = Inr out
     \<and> rows out = [derive_row 2024 example_now (assign_date ''Dt_Customer''
           (parse_cell example_parse (example_table [Some ''2022-01-01'', None]) ''Dt_Customer'')
           (example_customer (Some ''2022-01-01'')))]"
proof -
  let ?T = "example_table [Some ''2022-01-01'', None]"
  let ?f = "parse_cell example_parse ?T ''Dt_Customer''"
  let ?df1 = "set_date ''Dt_Customer'' ?f ?T"
  have d1: "to_datetime example_parse False ''Dt_Customer'' ?T = Inr ?df1"
    by (rule example_to_datetime) simp
  have sub: "set (''Year_Birth'' # spend_cols @ purchase_cols) \<subseteq> set (num_cols ?df1)"
    using example_num_cols [of "[Some ''2022-01-01'', None]"]
    by (auto simp: set_date_sel spend_cols_def purchase_cols_def)
  from run_clv_features_total [OF d1 sub] obtain out where
    o: "run_clv_features example_parse 2024 example_now ?T = Inr out" by blast
  from run_clv_features_Inr [OF o] d1 have
    rws: "rows out = filter (\<lambda>r. \<not> isna_any out r) (map (derive_row 2024 example_now) (rows ?df1))"
    and nc: "set (num_cols out) = set (num_cols ?df1) \<union> set derived_cols"
    and sc: "set (str_cols out) = set (str_cols ?df1) - set derived_cols"
    and dc: "set (date_cols out) = set (date_cols ?df1) - set derived_cols"
    by auto
  have sc': "set (str_cols out) = {}"
    unfolding sc by (simp add: set_date_sel example_table_def)
  have dc': "set (date_cols out) = {''Dt_Customer''}"
    unfolding dc by (simp add: set_date_sel example_table_def derived_cols_def)
  have nc': "set (num_cols out) = set (num_cols ?T) \<union> set derived_cols"
    unfolding nc by (simp add: set_date_sel example_table_def)
  let ?r = "derive_row 2024 example_now (assign_date ''Dt_Customer'' ?f (example_customer (Some ''2022-01-01'')))"
  have b: "num ?r c \<noteq> None" if c: "c \<in> set (num_cols ?T) \<union> set derived_cols" for c
  proof (cases "c \<in> set derived_cols")
    case True
    then show ?thesis
      by (auto simp: derived_cols_def example_age example_derived example_clv)
  next
    case False
    with c have "c \<in> set (num_cols ?T)" by simp
    from example_no_null [OF this] False show ?thesis
      by (simp add: derive_row_other assign_sel)
  qed
  have d: "date ?r ''Dt_Customer'' \<noteq> None"
    by (simp add: derive_row_fields assign_sel example_parsed)
  have keep: "\<not> isna_any out ?r"
    unfolding isna_any_iff sc' dc' nc' using b d by auto
  have "date (derive_row 2024 example_now (assign_date ''Dt_Customer'' ?f (example_customer None)))
      ''Dt_Customer'' = None"
    by (simp add: derive_row_fields assign_sel example_parsed)
  then have drop: "isna_any out (derive_row 2024 example_now (assign_date ''Dt_Customer'' ?f (example_customer None)))"
    unfolding isna_any_iff dc' by blast
  show ?thesis
    using o keep drop by (simp add: rws example_rows)
qed


lemma example_dashboard:
  "\<exists>out. run_clv_dashboard_table example_parse 2024 example_now [] [] [] (example_table ds) = Inr out
     \<and> rows out = map (\<lambda>d. derive_row 2024 example_now (assign_date ''Dt_Customer''
           (parse_cell example_parse (example_table ds) ''Dt_Customer'') (example_customer d))) ds"
proof -
  let ?T = "example_table ds"
  let ?f = "parse_cell example_parse ?T ''Dt_Customer''"
  let ?df1 = "set_date ''Dt_Customer'' ?f ?T"
  have d1: "to_datetime example_parse True ''Dt_Customer'' ?T = Inr ?df1"
    by (rule example_to_datetime) simp
  have sub: "set (''Year_Birth'' # spend_cols @ purchase_cols) \<subseteq> set (num_cols ?df1)"
    using example_num_cols [of ds]
    by (auto simp: set_date_sel spend_cols_def purchase_cols_def)
  from dashboard_features_full [OF d1 sub] obtain out where
    o: "run_clv_dashboard_features example_parse 2024 example_now ?T = Inr out"
    and r: "rows out = map (derive_row 2024 example_now) (rows ?df1)"
    and c: "set (columns out) = set (columns ?T) \<union> set derived_cols"
    by blast
  have n: "''Gender'' \<notin> set (columns out)" "''Marital_Status'' \<notin> set (columns out)"
    "''Education'' \<notin> set (columns out)"
    unfolding c by (simp_all add: example_table_def columns_def derived_cols_def)
  show ?thesis
    by (simp add: run_clv_dashboard_table_def o isin_filter_absent n r example_rows o_def)
qed

subsection \<open>Feature derivation\<close>

text \<open>
  C7. In every row of the table of the prediction page and of the table of the dashboard
  page, the tenure in days is the whole number of days from the enrollment date to the
  reading of the clock (null when the date is null), and the tenure in years is that
  number divided by 365.
\<close>

theorem tenure_years_exact:
  "(run_clv_features parse y now df = Inr out \<and> r \<in> set (rows out) \<longrightarrow>
      num r ''Customer_Tenure'' = tenure_days now r
      \<and> num r ''Tenure_Years'' = map_option (\<lambda>d. d / 365) (num r ''Customer_Tenure''))
   \<and> (run_clv_dashboard_table parse y now g m e df = Inr out' \<and> r' \<in> set (rows out') \<longrightarrow>
      num r' ''Customer_Tenure'' = tenure_days now r'
      \<and> num r' ''Tenure_Years'' = map_option (\<lambda>d. d / 365) (num r' ''Customer_Tenure''))"
proof (intro conjI impI; elim conjE)
  assume o: "run_clv_features parse y now df = Inr out" and r: "r \<in> set (rows out)"
  from run_clv_rows(1) [OF o r] obtain r1 where "r = derive_row y now r1" ..
  then show "num r ''Customer_Tenure'' = tenure_days now r"
    and "num r ''Tenure_Years'' = map_option (\<lambda>d. d / 365) (num r ''Customer_Tenure'')"
    by (simp_all add: derive_row_facts)
next
  assume o: "run_clv_dashboard_table parse y now g m e df = Inr out'" and r: "r' \<in> set (rows out')"
  from dashboard_table_rows [OF o r] obtain d where
    "run_clv_dashboard_features parse y now df = Inr d" "r' \<in> set (rows d)" by blast
  from dashboard_features_Inr(2) [OF this]
  show "num r' ''Customer_Tenure'' = tenure_days now r'"
    and "num r' ''Tenure_Years'' = map_option (\<lambda>d. d / 365) (num r' ''Customer_Tenure'')"
    by simp_all
qed

theorem tenure_years_exact_witness:
  "(case run_clv_features example_parse 2024 example_now (example_table [Some ''2022-01-01'', None]) of
      Inr out \<Rightarrow> map (\<lambda>r. (date r ''Dt_Customer'', num r ''Customer_Tenure'', num r ''Tenure_Years'')) (rows out) =
        [(Some 1640995200000000000, Some 730, Some 2)]
    | Inl e \<Rightarrow> False)
   \<and> (case run_clv_dashboard_table example_parse 2024 example_now [] [] []
          (example_table [Some ''2022-01-01'', Some ''unknown'']) of
      Inr out \<Rightarrow> map (\<lambda>r. (date r ''Dt_Customer'', num r ''Customer_Tenure'', num r ''Tenure_Years'')) (rows out) =
        [(Some 1640995200000000000, Some 730, Some 2), (None, None, None)]
    | Inl e \<Rightarrow> False)"
proof -
  let ?T = "example_table [Some ''2022-01-01'', None]"
  let ?r = "derive_row 2024 example_now (assign_date ''Dt_Customer''
    (parse_cell example_parse ?T ''Dt_Customer'') (example_customer (Some ''2022-01-01'')))"
  from example_run_clv obtain out where
    o: "run_clv_features example_parse 2024 example_now ?T = Inr out" and rw: "rows out = [?r]"
    by (elim exE conjE)
  let ?U = "example_table [Some ''2022-01-01'', Some ''unknown'']"
  let ?s = "derive_row 2024 example_now (assign_date ''Dt_Customer''
    (parse_cell example_parse ?U ''Dt_Customer'') (example_customer (Some ''unknown'')))"
  from example_dashboard [of "[Some ''2022-01-01'', Some ''unknown'']"] obtain out' where
    o': "run_clv_dashboard_table example_parse 2024 example_now [] [] [] ?U = Inr out'"
    and rw': "rows out' = map (\<lambda>d. derive_row 2024 example_now (assign_date ''Dt_Customer''
           (parse_cell example_parse ?U ''Dt_Customer'') (example_customer d))) [Some ''2022-01-01'', Some ''unknown'']"
    by (elim exE conjE)
  have "?r \<in> set (rows out)" "?s \<in> set (rows out')"
    by (simp_all add: rw rw')
  with o o' have "num ?r ''Tenure_Years'' = map_option (\<lambda>d. d / 365) (num ?r ''Customer_Tenure'')"
    "num ?s ''Tenure_Years'' = map_option (\<lambda>d. d / 365) (num ?s ''Customer_Tenure'')"
    using tenure_years_exact [of example_parse 2024 example_now ?T out ?r "[]" "[]" "[]" out' ?s]
      tenure_years_exact [of example_parse 2024 example_now ?U out ?r "[]" "[]" "[]" out' ?s]
    by blast+
  then show ?thesis
    by (simp add: o o' rw rw' example_derived derive_row_fields(9) assign_sel example_parsed)
qed






subsection \<open>Prediction page: the model artifacts\<close>

text \<open>
  C5. On a run of the prediction page the model and the feature list are loaded from the
  two artifact files, which stay as they are, when retraining was not requested and both
  files exist; otherwise (retraining requested, or a file absent) \<open>train_model\<close> runs.
  Training fits the regressor with 100 trees, depth 5, learning rate 0.1 and seed 42 to
  the fixed list of 16 features against the CLV column and, when the table has these
  columns and the fit returns, writes both artifacts anew.
\<close>

theorem load_or_train_cases:
  "(\<not> retrain \<and> xgb_model_pkl disk = Some model \<and> features_pkl disk = Some feats \<longrightarrow>
      load_or_train fit retrain df disk = Inr ((model, feats), disk))
   \<and> (retrain \<or> xgb_model_pkl disk = None \<or> features_pkl disk = None \<longrightarrow>
      load_or_train fit retrain df disk = train_model fit df disk)
   \<and> (train_model fit df disk = Inr ((model', feats'), disk') \<longrightarrow>
      feats' = features \<and> length features = 16 \<and> distinct features
      \<and> set (''CLV'' # features) \<subseteq> set (num_cols df)
      \<and> fit \<lparr>n_estimators = 100, max_depth = 5, learning_rate = 0.1, random_state = 42\<rparr>
            (map (\<lambda>r. map (num r) features) (rows df)) (map (\<lambda>r. num r ''CLV'') (rows df)) = Inr model'
      \<and> disk' = disk\<lparr>xgb_model_pkl := Some model', features_pkl := Some features\<rparr>)
   \<and> (set (''CLV'' # features) \<subseteq> set (num_cols df)
      \<and> fit \<lparr>n_estimators = 100, max_depth = 5, learning_rate = 0.1, random_state = 42\<rparr>
            (map (\<lambda>r. map (num r) features) (rows df)) (map (\<lambda>r. num r ''CLV'') (rows df)) = Inr model' \<longrightarrow>
      train_model fit df disk =
        Inr ((model', features), disk\<lparr>xgb_model_pkl := Some model', features_pkl := Some features\<rparr>))"
proof (intro conjI impI)
  assume "\<not> retrain \<and> xgb_model_pkl disk = Some model \<and> features_pkl disk = Some feats"
  then show "load_or_train fit retrain df disk = Inr ((model, feats), disk)"
    by (simp add: load_or_train_def)
next
  assume "retrain \<or> xgb_model_pkl disk = None \<or> features_pkl disk = None"
  then show "load_or_train fit retrain df disk = train_model fit df disk"
    by (auto simp: load_or_train_def)
next
  assume t: "train_model fit df disk = Inr ((model', feats'), disk')"
  then have c: "check_num df features = None" "check_num df [''CLV''] = None"
    by (auto simp: train_model_def split: option.splits)
  from t c show "feats' = features"
    and "fit \<lparr>n_estimators = 100, max_depth = 5, learning_rate = 0.1, random_state = 42\<rparr>
            (map (\<lambda>r. map (num r) features) (rows df)) (map (\<lambda>r. num r ''CLV'') (rows df)) = Inr model'"
    and "disk' = disk\<lparr>xgb_model_pkl := Some model', features_pkl := Some features\<rparr>"
    by (auto simp: train_model_def Let_def split: sum.splits)
  show "length features = 16" "distinct features"
    by (simp_all add: features_def)
  from c show "set (''CLV'' # features) \<subseteq> set (num_cols df)"
    by (simp add: check_num_None)
next
  assume a: "set (''CLV'' # features) \<subseteq> set (num_cols df)
      \<and> fit \<lparr>n_estimators = 100, max_depth = 5, learning_rate = 0.1, random_state = 42\<rparr>
            (map (\<lambda>r. map (num r) features) (rows df)) (map (\<lambda>r. num r ''CLV'') (rows df)) = Inr model'"
  then have c: "check_num df features = None" "check_num df [''CLV''] = None"
    by (simp_all add: check_num_None)
  from a show "train_model fit df disk =
        Inr ((model', features), disk\<lparr>xgb_model_pkl := Some model', features_pkl := Some features\<rparr>)"
    by (simp add: train_model_def c Let_def)
qed

theorem load_or_train_cases_witness:
  "load_or_train example_fit False example_training \<lparr>xgb_model_pkl = None, features_pkl = None\<rparr> =
     Inr ((\<lparr>n_estimators = 100, max_depth = 5, learning_rate = 0.1, random_state = 42\<rparr>, features),
          \<lparr>xgb_model_pkl = Some \<lparr>n_estimators = 100, max_depth = 5, learning_rate = 0.1, random_state = 42\<rparr>,
           features_pkl = Some features\<rparr>)
   \<and> load_or_train example_fit False example_training
       \<lparr>xgb_model_pkl = Some \<lparr>n_estimators = 1, max_depth = 1, learning_rate = 1, random_state = 0\<rparr>,
        features_pkl = Some [''Age'']\<rparr> =
     Inr ((\<lparr>n_estimators = 1, max_depth = 1, learning_rate = 1, random_state = 0\<rparr>, [''Age'']),
          \<lparr>xgb_model_pkl = Some \<lparr>n_estimators = 1, max_depth = 1, learning_rate = 1, random_state = 0\<rparr>,
           features_pkl = Some [''Age'']\<rparr>)
   \<and> load_or_train example_fit True example_training
       \<lparr>xgb_model_pkl = Some \<lparr>n_estimators = 1, max_depth = 1, learning_rate = 1, random_state = 0\<rparr>,
        features_pkl = Some [''Age'']\<rparr> =
     Inr ((\<lparr>n_estimators = 100, max_depth = 5, learning_rate = 0.1, random_state = 42\<rparr>, features),
          \<lparr>xgb_model_pkl = Some \<lparr>n_estimators = 100, max_depth = 5, learning_rate = 0.1, random_state = 42\<rparr>,
           features_pkl = Some features\<rparr>)"
proof -
  let ?hp = "\<lparr>n_estimators = 100, max_depth = 5, learning_rate = 0.1 :: real, random_state = 42\<rparr>"
  let ?old = "\<lparr>n_estimators = 1, max_depth = 1, learning_rate = 1 :: real, random_state = 0\<rparr>"
  let ?d0 = "\<lparr>xgb_model_pkl = None :: hyperparameters option, features_pkl = None\<rparr>"
  let ?d1 = "\<lparr>xgb_model_pkl = Some ?old, features_pkl = Some [''Age'']\<rparr>"
  have s: "set (''CLV'' # features) \<subseteq> set (num_cols example_training)"
    by (simp add: example_training_def)
  have f: "example_fit ?hp (map (\<lambda>r. map (num r) features) (rows example_training))
      (map (\<lambda>r. num r ''CLV'') (rows example_training)) = Inr ?hp"
    by (simp add: example_fit_def)
  note A = load_or_train_cases [of False ?d0 ?old "[]" example_fit example_training ?hp features ?d0]
  note B = load_or_train_cases [of False ?d1 ?old "[''Age'']" example_fit example_training ?hp features ?d1]
  note C = load_or_train_cases [of True ?d1 ?old "[''Age'']" example_fit example_training ?hp features ?d1]
  have t0: "train_model example_fit example_training ?d0 =
      Inr ((?hp, features), ?d0\<lparr>xgb_model_pkl := Some ?hp, features_pkl := Some features\<rparr>)"
    using A [THEN conjunct2, THEN conjunct2, THEN conjunct2] s f by blast
  have t1: "train_model example_fit example_training ?d1 =
      Inr ((?hp, features), ?d1\<lparr>xgb_model_pkl := Some ?hp, features_pkl := Some features\<rparr>)"
    using C [THEN conjunct2, THEN conjunct2, THEN conjunct2] s f by blast
  have l0: "load_or_train example_fit False example_training ?d0 = train_model example_fit example_training ?d0"
    using A [THEN conjunct2, THEN conjunct1] by simp
  have l1: "load_or_train example_fit False example_training ?d1 = Inr ((?old, [''Age'']), ?d1)"
    using B [THEN conjunct1] by simp
  have l2: "load_or_train example_fit True example_training ?d1 = train_model example_fit example_training ?d1"
    using C [THEN conjunct2, THEN conjunct1] by simp
  show ?thesis
    unfolding l0 l1 l2 t0 t1 by simp
qed

subsection \<open>Prediction page: the input form\<close>

lemma user_input_values:
  "values0 (user_input f) ''Total_Spending'' = Some (real_of_int (MntGoldProds f))"
  "values0 (user_input f) ''Purchase_Frequency'' =
     Some (real_of_int (NumDealsPurchases f + NumCatalogPurchases f))"
  "values0 (user_input f) ''Profit_Margin'' = Some (real_of_int (MntGoldProds f) * 0.3)"
  "values0 (user_input f) ''Tenure_Years'' = Some (real_of_int (Customer_Tenure f) / 365)"
  by (simp_all add: values0_def user_input_def Let_def)

lemma manual_clv_value:
  "manual_clv (user_input f) =
     Some (real_of_int (MntGoldProds f) * 0.3
       * real_of_int (NumDealsPurchases f + NumCatalogPurchases f)
       * (real_of_int (Customer_Tenure f) / 365))"
  by (simp add: manual_clv_def user_input_values mul_def Let_def)

lemma clv_product_derive_row:
  "clv_product (derive_row y now r) =
     map_option (\<lambda>d. total spend_cols r * 0.3 * total purchase_cols r * (d / 365)) (tenure_days now r)"
  by (simp add: clv_product_def derive_row_fields mul_def option.map_comp o_def)

lemma product_eq_iff:
  fixes g p s q t :: real
  shows "g * 0.3 * p * (t / 365) = s * 0.3 * q * (t / 365) \<longleftrightarrow> t = 0 \<or> g * p = s * q"
  by (auto simp: field_simps)

lemma example_newcomer_fields:
  "total spend_cols example_newcomer = 1000"
  "total purchase_cols example_newcomer = 5"
  "tenure_days example_now example_newcomer = Some 0"
  "num example_newcomer ''MntWines'' = Some 500"
  "num example_newcomer ''NumWebPurchases'' = Some 2"
  "num example_newcomer ''MntGoldProds'' = Some 100"
  "num example_newcomer ''NumDealsPurchases'' = Some 1"
  "num example_newcomer ''NumCatalogPurchases'' = Some 1"
  unfolding example_newcomer_def
  by (simp_all add: example_row_fields assign_sel)
    (simp_all add: example_customer_def)

text \<open>
  C9, as the claim states it, fails: a form with tenure 0, for a customer who has spend
  in other categories and purchases in other channels, shows the manual CLV 0, which is
  the CLV the derivation gives that customer.
\<close>

theorem manual_clv_not_always_different:
  "widget_ranges example_form
   \<and> num example_newcomer ''MntWines'' = Some 500
   \<and> num example_newcomer ''NumWebPurchases'' = Some 2
   \<and> num example_newcomer ''MntGoldProds'' = Some (real_of_int (MntGoldProds example_form))
   \<and> num example_newcomer ''NumDealsPurchases'' = Some (real_of_int (NumDealsPurchases example_form))
   \<and> num example_newcomer ''NumCatalogPurchases'' = Some (real_of_int (NumCatalogPurchases example_form))
   \<and> num (derive_row 2024 example_now example_newcomer) ''Customer_Tenure'' =
       Some (real_of_int (Customer_Tenure example_form))
   \<and> manual_clv (user_input example_form) = Some 0
   \<and> num (derive_row 2024 example_now example_newcomer) ''CLV'' = Some 0"
proof -
  have "widget_ranges example_form"
    by (simp add: widget_ranges_def example_form_def)
  moreover have "manual_clv (user_input example_form) = Some 0"
    by (simp add: manual_clv_value example_form_def)
  moreover have "num (derive_row 2024 example_now example_newcomer) ''CLV'' = Some 0"
    by (simp add: derive_row_fields example_newcomer_fields round2_def rint_def)
  moreover have "num (derive_row 2024 example_now example_newcomer) ''Customer_Tenure'' =
       Some (real_of_int (Customer_Tenure example_form))"
    by (simp add: derive_row_fields example_newcomer_fields example_form_def)
  ultimately show ?thesis
    by (simp add: example_newcomer_fields example_form_def)
qed

text \<open>
  C9, amended. In the input form the total spending is the gold amount alone, the
  purchase frequency is deal purchases plus catalog purchases, the profit margin is 0.3
  times that spending, and the manual CLV is the unrounded product of margin, frequency
  and tenure in years. Against a customer row of the same tenure, the manual CLV equals
  the unrounded product of the derived margin, frequency and tenure of the full columns
  exactly when the tenure is 0 or gold times (deals plus catalog) equals the sum of the
  six spend columns times the sum of the four purchase counts; otherwise it differs.
\<close>

theorem manual_clv_reduced:
  "values0 (user_input f) ''Total_Spending'' = Some (real_of_int (MntGoldProds f))
   \<and> values0 (user_input f) ''Purchase_Frequency'' =
       Some (real_of_int (NumDealsPurchases f + NumCatalogPurchases f))
   \<and> values0 (user_input f) ''Profit_Margin'' = Some (0.3 * real_of_int (MntGoldProds f))
   \<and> manual_clv (user_input f) =
       Some (0.3 * real_of_int (MntGoldProds f)
         * real_of_int (NumDealsPurchases f + NumCatalogPurchases f)
         * (real_of_int (Customer_Tenure f) / 365))
   \<and> (tenure_days now r = Some (real_of_int (Customer_Tenure f)) \<longrightarrow>
        (manual_clv (user_input f) = clv_product (derive_row y now r) \<longleftrightarrow>
           Customer_Tenure f = 0
           \<or> real_of_int (MntGoldProds f) * real_of_int (NumDealsPurchases f + NumCatalogPurchases f) =
               total spend_cols r * total purchase_cols r))"
proof (intro conjI impI)
  show "values0 (user_input f) ''Total_Spending'' = Some (real_of_int (MntGoldProds f))"
    "values0 (user_input f) ''Purchase_Frequency'' =
       Some (real_of_int (NumDealsPurchases f + NumCatalogPurchases f))"
    "values0 (user_input f) ''Profit_Margin'' = Some (0.3 * real_of_int (MntGoldProds f))"
    by (simp_all add: user_input_values)
  show "manual_clv (user_input f) =
       Some (0.3 * real_of_int (MntGoldProds f)
         * real_of_int (NumDealsPurchases f + NumCatalogPurchases f)
         * (real_of_int (Customer_Tenure f) / 365))"
    by (simp add: manual_clv_value)
  assume t: "tenure_days now r = Some (real_of_int (Customer_Tenure f))"
  have "manual_clv (user_input f) = clv_product (derive_row y now r) \<longleftrightarrow>
      real_of_int (MntGoldProds f) * 0.3 * real_of_int (NumDealsPurchases f + NumCatalogPurchases f)
        * (real_of_int (Customer_Tenure f) / 365) =
      total spend_cols r * 0.3 * total purchase_cols r * (real_of_int (Customer_Tenure f) / 365)"
    unfolding manual_clv_value clv_product_derive_row t by simp
  also have "\<dots> \<longleftrightarrow> real_of_int (Customer_Tenure f) = 0
      \<or> real_of_int (MntGoldProds f) * real_of_int (NumDealsPurchases f + NumCatalogPurchases f) =
               total spend_cols r * total purchase_cols r"
    by (rule product_eq_iff)
  finally show "manual_clv (user_input f) = clv_product (derive_row y now r) \<longleftrightarrow>
           Customer_Tenure f = 0
           \<or> real_of_int (MntGoldProds f) * real_of_int (NumDealsPurchases f + NumCatalogPurchases f) =
               total spend_cols r * total purchase_cols r"
    by simp
qed

theorem manual_clv_reduced_witness:
  "tenure_days example_now example_newcomer = Some (real_of_int (Customer_Tenure example_form))
   \<and> Customer_Tenure example_form = 0
   \<and> manual_clv (user_input example_form) = Some 0
   \<and> manual_clv (user_input example_form) = clv_product (derive_row 2024 example_now example_newcomer)
   \<and> real_of_int (MntGoldProds example_form)
        * real_of_int (NumDealsPurchases example_form + NumCatalogPurchases example_form) = 200
   \<and> total spend_cols example_newcomer * total purchase_cols example_newcomer = 5000"
proof -
  have t: "tenure_days example_now example_newcomer = Some (real_of_int (Customer_Tenure example_form))"
    and z: "Customer_Tenure example_form = 0"
    by (simp_all add: example_newcomer_fields example_form_def)
  from manual_clv_reduced [of example_form example_now example_newcomer 2024] t z
  have "manual_clv (user_input example_form) = clv_product (derive_row 2024 example_now example_newcomer)"
    by blast
  moreover have "manual_clv (user_input example_form) = Some 0"
    by (simp add: manual_clv_value example_form_def)
  ultimately show ?thesis using t z
    by (simp add: example_newcomer_fields) (simp add: example_form_def)
qed

end
